theory Spec2Isabelle
  imports Main
begin

section \<open>Strings and paths\<close>

text \<open>
  Python strings are modelled as \<open>string\<close>. The helpers below are the string operations
  that \<open>max_config.py\<close> uses: \<open>str.lower\<close> (on ASCII letters), the \<open>in\<close> test on
  strings, \<open>str.split\<close> with a one-character separator and \<open>str.join\<close>.
\<close>

definition lower_char :: "char \<Rightarrow> char" where
  "lower_char c =
     (case map_of (zip ''ABCDEFGHIJKLMNOPQRSTUVWXYZ'' ''abcdefghijklmnopqrstuvwxyz'') c of
        Some d \<Rightarrow> d
      | None \<Rightarrow> c)"

definition lower :: "string \<Rightarrow> string" where
  "lower s = map lower_char s"

fun startswith :: "string \<Rightarrow> string \<Rightarrow> bool" where
  "startswith s [] = True"
| "startswith [] (p # ps) = False"
| "startswith (x # xs) (p # ps) = (x = p \<and> startswith xs ps)"

text \<open>\<open>str_contains s sub\<close> is Python's \<open>sub in s\<close>.\<close>

fun str_contains :: "string \<Rightarrow> string \<Rightarrow> bool" where
  "str_contains [] sub = (sub = [])"
| "str_contains (x # xs) sub = (startswith (x # xs) sub \<or> str_contains xs sub)"

text \<open>\<open>split_str c s\<close> is \<open>s.split(c)\<close>; the result is never empty.\<close>

fun split_str :: "char \<Rightarrow> string \<Rightarrow> string list" where
  "split_str c [] = [[]]"
| "split_str c (x # xs) =
     (if x = c then [] # split_str c xs
      else (case split_str c xs of
              [] \<Rightarrow> [[x]]
            | p # ps \<Rightarrow> (x # p) # ps))"

text \<open>\<open>join_str sep ps\<close> is \<open>sep.join(ps)\<close>.\<close>

fun join_str :: "string \<Rightarrow> string list \<Rightarrow> string" where
  "join_str sep [] = []"
| "join_str sep [p] = p"
| "join_str sep (p # q # ps) = p @ sep @ join_str sep (q # ps)"

text \<open>
  A \<open>pathlib.Path\<close> is represented by its string form \<open>str(path)\<close>. The function
  \<open>Path\<close> is the constructor \<open>Path(s)\<close> on a POSIX system: the root is one slash, or
  two when the string starts with exactly two; empty and \<open>.\<close> components are dropped;
  the empty path prints as \<open>.\<close>.
\<close>

datatype path = PosixPath (str: string)

definition splitroot :: "string \<Rightarrow> string \<times> string" where
  "splitroot p =
     (if take 1 p \<noteq> ''/'' then ([], p)
      else if take 1 (drop 1 p) \<noteq> ''/'' \<or> take 1 (drop 2 p) = ''/'' then (''/'', drop 1 p)
      else (''//'', drop 2 p))"

definition Path :: "string \<Rightarrow> path" where
  "Path s =
     (let (root, rel) = splitroot s;
          parts = filter (\<lambda>x. x \<noteq> [] \<and> x \<noteq> ''.'') (split_str CHR ''/'' rel);
          r = root @ join_str ''/'' parts
      in PosixPath (if r = [] then ''.'' else r))"

text \<open>
  \<open>rfind_dot\<close> is \<open>name.rfind('.')\<close> (\<open>None\<close> for -1) and \<open>suffix\<close> is
  \<open>Path.suffix\<close>: the part of the last component from its last dot on, when that dot is
  neither the first nor the last character of the component.
\<close>

fun rfind_dot :: "string \<Rightarrow> nat option" where
  "rfind_dot [] = None"
| "rfind_dot (x # xs) =
     (case rfind_dot xs of
        Some i \<Rightarrow> Some (Suc i)
      | None \<Rightarrow> (if x = CHR ''.'' then Some 0 else None))"

definition suffix :: "path \<Rightarrow> string" where
  "suffix p =
     (let name = last (split_str CHR ''/'' (str p)) in
      case rfind_dot name of
        None \<Rightarrow> []
      | Some i \<Rightarrow> (if 0 < i \<and> i < length name - 1 then drop i name else []))"

section \<open>Data model\<close>

text \<open>
  The enumerations and classes that \<open>max_config.py\<close> imports. Of \<open>SupportedEncoding\<close>
  the source names the members \<open>float32\<close>, \<open>bfloat16\<close> and \<open>gptq\<close>; every other member
  is \<open>other_encoding\<close> with its name. All members are truthy. \<open>RepoType\<close> has a third
  value for the \<open>else\<close> branches of the source, which handle a repository type that is
  neither \<open>local\<close> nor \<open>online\<close>.
\<close>

datatype SupportedEncoding = float32 | bfloat16 | gptq | other_encoding string

datatype QuantizationEncoding = QuantizationEncoding string

datatype KVCacheStrategy = MODEL_DEFAULT | NAIVE | CONTINUOUS | PAGED

datatype WeightsFormat = gguf | safetensors | pytorch

datatype RepoType = RepoType_online | RepoType_local | RepoType_unexpected

record DeviceSpec =
  device_id :: int
  device_type :: string

text \<open>
  \<open>KVCacheConfig\<close>, without its two floating-point fields
  (\<open>device_memory_utilization\<close>, \<open>host_kvcache_swap_space_gb\<close>), which no operation
  below reads or writes.
\<close>

record KVCacheConfig =
  cache_strategy :: KVCacheStrategy
  kv_cache_page_size :: int
  enable_prefix_caching :: bool
  enable_kvcache_swapping_to_host :: bool
  available_cache_memory :: "int option"

datatype jvalue = JStr string | JInt int | JBool bool

record QuantizationConfig =
  quant_method :: jvalue
  bits :: jvalue
  group_size :: jvalue
  desc_act :: jvalue
  sym :: jvalue

text \<open>
  \<open>MAXModelConfig\<close>. The fields \<open>_weights_repo_id\<close>, \<open>_quant_config\<close> and
  \<open>_kv_cache_config\<close> lose their leading underscore. \<open>weight_path\<close> has its declared
  type, a list of paths; the value that \<open>resolve\<close> finds in the attribute on entry need not
  have that type and is described by \<open>weight_path_value\<close>.
\<close>

record MAXModelConfig =
  model_path :: string
  weight_path :: "path list"
  quantization_encoding :: "SupportedEncoding option"
  huggingface_revision :: string
  trust_remote_code :: bool
  device_specs :: "DeviceSpec list"
  force_download :: bool
  weights_repo_id :: "string option"
  quant_config :: "QuantizationConfig option"
  kv_cache_config :: KVCacheConfig

text \<open>
  An entry of the raw \<open>weight_path\<close> is a string, a \<open>Path\<close>, or an object of another type
  (kept with its \<open>str()\<close>); the attribute itself is a list, a tuple, or a single object.
\<close>

datatype weight_entry = EStr string | EPath path | EOther string

datatype weight_path_value =
  WList "weight_entry list" | WTuple "weight_entry list" | WSingle weight_entry

record HuggingFaceRepo =
  repo_id :: string
  revision :: string
  repo_trust_remote_code :: bool
  repo_type :: RepoType

text \<open>The outcomes of \<open>try_to_load_from_cache\<close>: a path, the sentinel of a cached absence, or \<open>None\<close>.\<close>

datatype cache_result = CachedPath string | CachedNoExist | CacheMiss

record HFConfig =
  torch_dtype_is_float16 :: bool
  quantization_config :: "string \<rightharpoonup> jvalue"

datatype error =
    ValueError string
  | FileNotFoundError string
  | RuntimeError string
  | AssertionError string
  | IndexError
  | KeyError string
  | ExternalError string

datatype log_level = DEBUG | WARNING

section \<open>Environment\<close>

text \<open>
  What the configuration consults outside \<open>max_config.py\<close>: the file system, the
  device scanner, the Hugging Face hub and cache, and the functions of the modules
  \<open>config_enums\<close>, \<open>hf_utils\<close> and \<open>max.graph.weights\<close>, whose code lies outside
  \<open>max_config.py\<close>. They are the fields of \<open>env\<close>. Constructing a
  \<open>HuggingFaceRepo\<close> classifies the repository or raises; the queries on files, on
  the hub and on a repository are answers, with no exception of their own;
  \<open>weights_format\<close> returns \<open>None\<close> where it raises the \<open>ValueError\<close> that the source
  catches; the \<open>str_\<close> and \<open>repr_\<close> fields render values inside messages.
\<close>

record env =
  devices_exist :: "DeviceSpec list \<Rightarrow> bool"
  scan_available_devices :: "DeviceSpec list"
  repr_devices :: "DeviceSpec list \<Rightarrow> string"
  is_file :: "path \<Rightarrow> bool"
  path_exists :: "string \<Rightarrow> bool"
  path_resolve :: "path \<Rightarrow> path"
  hf_file_exists :: "string \<Rightarrow> string \<Rightarrow> bool"
  repo_exists_with_retry :: "string \<Rightarrow> bool"
  try_to_load_from_cache :: "string \<Rightarrow> string \<Rightarrow> string \<Rightarrow> cache_result"
  classify_repo :: "string \<Rightarrow> string \<Rightarrow> bool \<Rightarrow> error + RepoType"
  encoding_for_file :: "HuggingFaceRepo \<Rightarrow> path \<Rightarrow> SupportedEncoding option"
  supported_encodings :: "HuggingFaceRepo \<Rightarrow> SupportedEncoding list"
  files_for_encoding ::
    "HuggingFaceRepo \<Rightarrow> SupportedEncoding \<Rightarrow> SupportedEncoding option
       \<Rightarrow> (WeightsFormat \<times> path list) list"
  repo_file_exists :: "HuggingFaceRepo \<Rightarrow> string \<Rightarrow> bool"
  parse_from_file_name :: "string \<Rightarrow> SupportedEncoding option"
  supported_on :: "SupportedEncoding \<Rightarrow> DeviceSpec \<Rightarrow> bool"
  ALTERNATE_ENCODINGS :: "SupportedEncoding \<rightharpoonup> SupportedEncoding"
  graph_encoding_of :: "SupportedEncoding \<Rightarrow> QuantizationEncoding option"
  str_encoding :: "SupportedEncoding \<Rightarrow> string"
  str_strategy :: "KVCacheStrategy \<Rightarrow> string"
  str_repo_type :: "RepoType \<Rightarrow> string"
  weights_format :: "path list \<Rightarrow> WeightsFormat option"
  AutoConfig_from_pretrained :: "string \<Rightarrow> bool \<Rightarrow> string \<Rightarrow> error + HFConfig"

section \<open>resolve\<close>

text \<open>
  Lines 239 to 252 of \<open>resolve\<close>: a path of at least three pieces may start with a
  repository id. The result is the configuration, whose \<open>_weights_repo_id\<close> may have been
  set, and the path to append.
\<close>

definition resolve_repo_id_prefix ::
  "env \<Rightarrow> MAXModelConfig \<Rightarrow> path \<Rightarrow> error + (MAXModelConfig \<times> path)" where
  "resolve_repo_id_prefix e self p =
     (let path_pieces = split_str CHR ''/'' (str p) in
      if path_pieces \<noteq> [] then
        if length path_pieces \<ge> 3 then
          (let repo = path_pieces ! 0 @ ''/'' @ path_pieces ! 1;
               file_name = join_str ''/'' (drop 2 path_pieces)
           in if model_path self \<noteq> [] \<and> repo = model_path self then Inr (self, Path file_name)
              else if hf_file_exists e repo file_name
                then Inr (self\<lparr>weights_repo_id := Some repo\<rparr>, Path file_name)
              else Inr (self, p))
        else if model_path self = [] then
          Inl (ValueError (''Unable to derive model_path from weight_path, '' @
                           ''please provide a valid Hugging Face repository id.''))
        else Inr (self, p)
      else Inr (self, p))"

text \<open>
  The body of the loop over the entries (lines 222 to 254). The test \<open>path.is_file()\<close> is
  the last branch of the chain that starts with \<open>isinstance(path, str)\<close>, so it is made
  for an entry that is a \<open>Path\<close> and not for one that is a string.
\<close>

definition resolve_weight_entry ::
  "env \<Rightarrow> MAXModelConfig \<Rightarrow> weight_entry \<Rightarrow> error + (MAXModelConfig \<times> path)" where
  "resolve_weight_entry e self entry =
     (case entry of
        EStr s \<Rightarrow> resolve_repo_id_prefix e self (Path s)
      | EOther d \<Rightarrow>
          Inl (ValueError (''weight_path provided must either be string or Path: '' @
                           [CHR 0x27] @ d @ [CHR 0x27]))
      | EPath p \<Rightarrow> if is_file e p then Inr (self, p) else resolve_repo_id_prefix e self p)"

text \<open>The loop: \<open>weight_paths\<close> collects the paths in order.\<close>

fun resolve_weight_paths ::
  "env \<Rightarrow> MAXModelConfig \<Rightarrow> weight_entry list \<Rightarrow> path list
     \<Rightarrow> error + (MAXModelConfig \<times> path list)" where
  "resolve_weight_paths e self [] weight_paths = Inr (self, weight_paths)"
| "resolve_weight_paths e self (entry # entries) weight_paths =
     (case resolve_weight_entry e self entry of
        Inl err \<Rightarrow> Inl err
      | Inr (self', p) \<Rightarrow> resolve_weight_paths e self' entries (weight_paths @ [p]))"

text \<open>Lines 215 to 218: a tuple becomes a list, any other non-list value a one-element list.\<close>

fun as_list :: "weight_path_value \<Rightarrow> weight_entry list" where
  "as_list (WTuple es) = es"
| "as_list (WList es) = es"
| "as_list (WSingle x) = [x]"

definition resolve :: "env \<Rightarrow> weight_path_value \<Rightarrow> MAXModelConfig \<Rightarrow> error + MAXModelConfig" where
  "resolve e raw self =
     (if \<not> devices_exist e (device_specs self) then
        Inl (ValueError (''device specs provided ('' @ repr_devices e (device_specs self) @
                         '') do not exist.'' @ [CHR 0x0A] @ ''available devices: '' @
                         repr_devices e (scan_available_devices e)))
      else
        let self1 = (if str_contains (lower (model_path self)) ''replit''
                     then self\<lparr>trust_remote_code := True\<rparr> else self)
        in case resolve_weight_paths e self1 (as_list raw) [] of
             Inl err \<Rightarrow> Inl err
           | Inr (self2, weight_paths) \<Rightarrow>
               (let self3 = self2\<lparr>weight_path := weight_paths\<rparr> in
                if length (weight_path self3) = 0 then
                  if model_path self3 = [] then
                    Inl (ValueError
                      ''model_path must be provided and must be a valid Hugging Face repository'')
                  else if \<not> path_exists e (model_path self3)
                          \<and> \<not> repo_exists_with_retry e (model_path self3) then
                    Inl (ValueError
                      (model_path self3 @ '' is not a valid Hugging Face repository''))
                  else Inr self3
                else
                  (case weights_repo_id self3 of
                     Some r \<Rightarrow> if model_path self3 = [] then Inr (self3\<lparr>model_path := r\<rparr>)
                               else Inr self3
                   | None \<Rightarrow> Inr self3)))"

section \<open>Accessors\<close>

text \<open>
  The property \<open>graph_quantization_encoding\<close> reads one field and assigns none: it is a
  function from the configuration to an error or the value returned.
\<close>

definition graph_quantization_encoding ::
  "env \<Rightarrow> MAXModelConfig \<Rightarrow> error + QuantizationEncoding option" where
  "graph_quantization_encoding e self =
     (case quantization_encoding self of
        None \<Rightarrow>
          Inl (ValueError (''can'' @ [CHR 0x27] @ ''t convert `None` CLI encoding to graph '' @
                           ''quantization encoding''))
      | Some enc \<Rightarrow> Inr (graph_encoding_of e enc))"

text \<open>
  \<open>huggingface_weights_repo\<close> is a cached property: its first read builds the
  repository from the fields at that moment. The model builds it at every read, which is
  the same as long as the first read comes after \<open>resolve\<close>, the last operation to
  change the three fields it depends on.
\<close>

definition huggingface_weights_repo :: "env \<Rightarrow> MAXModelConfig \<Rightarrow> error + HuggingFaceRepo" where
  "huggingface_weights_repo e self =
     (let rid = (case weights_repo_id self of
                   Some r \<Rightarrow> if r \<noteq> [] then r else model_path self
                 | None \<Rightarrow> model_path self)
      in case classify_repo e rid (huggingface_revision self) (trust_remote_code self) of
           Inl err \<Rightarrow> Inl err
         | Inr t \<Rightarrow>
             Inr \<lparr>repo_id = rid, revision = huggingface_revision self,
                  repo_trust_remote_code = trust_remote_code self, repo_type = t\<rparr>)"

section \<open>Encoding and weight path\<close>

text \<open>
  A function that writes to the logger returns the records it emitted, in order, next
  to its result.
\<close>

type_synonym log = "(log_level \<times> string) list"

definition quote :: "string \<Rightarrow> string" where
  "quote s = [CHR 0x27] @ s @ [CHR 0x27]"

text \<open>The encoding of the first weight file (lines 403 to 410).\<close>

definition first_file_encoding ::
  "env \<Rightarrow> MAXModelConfig \<Rightarrow> error + SupportedEncoding option" where
  "first_file_encoding e self =
     (if path_exists e (str (weight_path self ! 0))
      then Inr (parse_from_file_name e (str (weight_path self ! 0)))
      else (case huggingface_weights_repo e self of
              Inl err \<Rightarrow> Inl err
            | Inr repo \<Rightarrow> Inr (encoding_for_file e repo (weight_path self ! 0))))"

definition validate_and_resolve_quantization_encoding_weight_path ::
  "env \<Rightarrow> SupportedEncoding \<Rightarrow> MAXModelConfig \<Rightarrow> error + (MAXModelConfig \<times> log)" where
  "validate_and_resolve_quantization_encoding_weight_path e default_encoding self =
     (let wf = weights_format e (weight_path self) in
      if weight_path self \<noteq> [] \<and> quantization_encoding self \<noteq> None \<and> wf \<noteq> Some pytorch then
        (case first_file_encoding e self of
           Inl err \<Rightarrow> Inl err
         | Inr None \<Rightarrow> Inr (self, [])
         | Inr (Some file_encoding) \<Rightarrow>
             if Some file_encoding \<noteq> quantization_encoding self then
               Inl (ValueError
                 (''weight_path provided '' @ quote (str (weight_path self ! 0)) @
                  '' has an inconsistent encoding '' @ quote (str_encoding e file_encoding) @
                  '' than quantization_encoding provided '' @
                  quote (case quantization_encoding self of
                           Some q \<Rightarrow> str_encoding e q
                         | None \<Rightarrow> ''None'') @
                  ''. Please update one.''))
             else Inr (self, []))
      else if weight_path self \<noteq> [] \<and> quantization_encoding self = None \<and> wf \<noteq> Some pytorch then
        if path_exists e (str (weight_path self ! 0)) then
          if suffix (weight_path self ! 0) = ''.safetensors'' then
            Inl (ValueError (''If a local safetensors file is provided, '' @
                             ''please provide a quantization_encoding.''))
          else
            (case parse_from_file_name e (str (weight_path self ! 0)) of
               Some encoding \<Rightarrow>
                 Inr (self\<lparr>quantization_encoding := Some encoding\<rparr>,
                      [(DEBUG, ''encoding inferred from weights file: '' @ str_encoding e encoding)])
             | None \<Rightarrow> Inr (self, []))
        else
          (case huggingface_weights_repo e self of
             Inl err \<Rightarrow> Inl err
           | Inr repo \<Rightarrow>
               (case encoding_for_file e repo (weight_path self ! 0) of
                  Some encoding \<Rightarrow>
                    Inr (self\<lparr>quantization_encoding := Some encoding\<rparr>,
                         [(DEBUG, ''encoding inferred from weights file: '' @
                                  str_encoding e encoding)])
                | None \<Rightarrow>
                    Inl (ValueError
                      (''encoding cannot be inferred from weights file: '' @
                       str (weight_path self ! 0) @
                       '', please pass a quantization_encoding explictly.''))))
      else if quantization_encoding self = None then
        (case huggingface_weights_repo e self of
           Inl err \<Rightarrow> Inl err
         | Inr repo \<Rightarrow>
             (let encs = supported_encodings e repo in
              if length encs = 1 then
                Inr (self\<lparr>quantization_encoding := Some (encs ! 0)\<rparr>,
                     [(DEBUG, ''huggingface repo only has '' @ quote (str_encoding e (encs ! 0)) @
                              '' weights, using '' @ quote (str_encoding e (encs ! 0)))])
              else
                (case device_specs self of
                   [] \<Rightarrow> Inl IndexError
                 | d # _ \<Rightarrow>
                     if device_type d \<noteq> ''cpu'' \<and> bfloat16 \<in> set encs then
                       Inr (self\<lparr>quantization_encoding := Some bfloat16\<rparr>, [])
                     else
                       Inr (self\<lparr>quantization_encoding := Some default_encoding\<rparr>,
                            [(DEBUG, ''encoding not provided, using default encoding of '' @
                                     str_encoding e default_encoding)]))))
      else Inr (self, []))"

section \<open>Resolution with a set encoding\<close>

definition assert_quantization_encoding :: "MAXModelConfig \<Rightarrow> error + SupportedEncoding" where
  "assert_quantization_encoding self =
     (case quantization_encoding self of
        None \<Rightarrow> Inl (AssertionError ''quantization_encoding must be set.'')
      | Some q \<Rightarrow> Inr q)"

fun check_devices ::
  "env \<Rightarrow> SupportedEncoding \<Rightarrow> SupportedEncoding list \<Rightarrow> DeviceSpec list \<Rightarrow> error + unit" where
  "check_devices e q supported_encodings_list [] = Inr ()"
| "check_devices e q supported_encodings_list (device_spec # rest) =
     (if \<not> supported_on e q device_spec then
        Inl (ValueError
          (''The encoding '' @ quote (str_encoding e q) @
           '' is not compatible with the selected device type '' @
           quote (device_type device_spec) @ ''.'' @ [CHR 0x0A, CHR 0x0A] @
           ''You have two options to resolve this:'' @ [CHR 0x0A] @
           ''1. Use a different device'' @ [CHR 0x0A] @
           ''2. Use a different encoding (encodings available for this model: '' @
           join_str '', '' (map (str_encoding e) supported_encodings_list) @ '')'' @
           [CHR 0x0A, CHR 0x0A] @
           ''Please use the --help flag for more information.''))
      else check_devices e q supported_encodings_list rest)"

definition validate_quantization_encoding_device_compatibility ::
  "env \<Rightarrow> SupportedEncoding list \<Rightarrow> MAXModelConfig \<Rightarrow> error + unit" where
  "validate_quantization_encoding_device_compatibility e supported_encodings_list self =
     (case assert_quantization_encoding self of
        Inl err \<Rightarrow> Inl err
      | Inr q \<Rightarrow> check_devices e q supported_encodings_list (device_specs self))"

definition getitem :: "(string \<rightharpoonup> jvalue) \<Rightarrow> string \<Rightarrow> error + jvalue" where
  "getitem d k = (case d k of None \<Rightarrow> Inl (KeyError k) | Some v \<Rightarrow> Inr v)"

definition make_quant_config :: "(string \<rightharpoonup> jvalue) \<Rightarrow> error + QuantizationConfig" where
  "make_quant_config d =
     (case getitem d ''quant_method'' of Inl err \<Rightarrow> Inl err | Inr a \<Rightarrow>
     (case getitem d ''bits'' of Inl err \<Rightarrow> Inl err | Inr b \<Rightarrow>
     (case getitem d ''group_size'' of Inl err \<Rightarrow> Inl err | Inr c \<Rightarrow>
     (case getitem d ''desc_act'' of Inl err \<Rightarrow> Inl err | Inr f \<Rightarrow>
     (case getitem d ''sym'' of Inl err \<Rightarrow> Inl err | Inr g \<Rightarrow>
        Inr \<lparr>quant_method = a, bits = b, group_size = c, desc_act = f, sym = g\<rparr>)))))"

definition finalize_encoding_config :: "env \<Rightarrow> MAXModelConfig \<Rightarrow> error + MAXModelConfig" where
  "finalize_encoding_config e self =
     (if quantization_encoding self = Some gptq then
        (case AutoConfig_from_pretrained e (model_path self) (trust_remote_code self)
                (huggingface_revision self) of
           Inl err \<Rightarrow> Inl err
         | Inr hf_config \<Rightarrow>
             if \<not> torch_dtype_is_float16 hf_config then
               Inl (ValueError ''bfloat16 scales are not supported for GPTQ-quantized models.'')
             else
               (case make_quant_config (quantization_config hf_config) of
                  Inl err \<Rightarrow> Inl err
                | Inr qc \<Rightarrow> Inr (self\<lparr>quant_config := Some qc\<rparr>)))
      else Inr self)"

text \<open>
  Lines 525 to 549: with no weight path, take the files of the default format, or else
  those of the first format that the repository lists.
\<close>

definition default_weight_path ::
  "env \<Rightarrow> WeightsFormat \<Rightarrow> SupportedEncoding \<Rightarrow> MAXModelConfig \<Rightarrow> error + MAXModelConfig" where
  "default_weight_path e default_weights_format q self =
     (if weight_path self = [] then
        (let alternate_encoding = ALTERNATE_ENCODINGS e q in
         case huggingface_weights_repo e self of
           Inl err \<Rightarrow> Inl err
         | Inr repo \<Rightarrow>
             (let weight_files = files_for_encoding e repo q alternate_encoding;
                  default_weight_files =
                    (case map_of weight_files default_weights_format of
                       None \<Rightarrow> []
                     | Some fs \<Rightarrow> fs)
              in if default_weight_files \<noteq> [] then Inr (self\<lparr>weight_path := default_weight_files\<rparr>)
                 else (case weight_files of
                         [] \<Rightarrow> Inr self
                       | (fmt, fs) # _ \<Rightarrow> Inr (self\<lparr>weight_path := fs\<rparr>))))
      else Inr self)"

definition resolve_weight_path ::
  "env \<Rightarrow> WeightsFormat \<Rightarrow> MAXModelConfig \<Rightarrow> error + MAXModelConfig" where
  "resolve_weight_path e default_weights_format self =
     (case assert_quantization_encoding self of
        Inl err \<Rightarrow> Inl err
      | Inr q \<Rightarrow>
          (case default_weight_path e default_weights_format q self of
             Inl err \<Rightarrow> Inl err
           | Inr self1 \<Rightarrow>
               if weight_path self1 = [] then
                 if q \<notin> set [bfloat16, float32] then
                   (case huggingface_weights_repo e self1 of
                      Inl err \<Rightarrow> Inl err
                    | Inr repo \<Rightarrow>
                        Inl (ValueError
                          (''compatible weights cannot be found for '' @ quote (str_encoding e q) @
                           '' in '' @ quote ''gguf'' @ '' format, in the provided repo: '' @
                           quote (repo_id repo))))
                 else
                   Inl (ValueError
                     (''compatible weights cannot be found for '' @ quote (str_encoding e q)))
               else Inr self1))"

text \<open>
  The argument \<open>supported\<close> is the dictionary from an encoding to its cache strategies,
  as the list of its items in order.
\<close>

definition resolve_kv_cache_strategy ::
  "env \<Rightarrow> (SupportedEncoding \<times> KVCacheStrategy list) list \<Rightarrow> MAXModelConfig
     \<Rightarrow> error + (MAXModelConfig \<times> log)" where
  "resolve_kv_cache_strategy e supported self =
     (case assert_quantization_encoding self of
        Inl err \<Rightarrow> Inl err
      | Inr q \<Rightarrow>
          (let supported_cache_strategies =
                 (case map_of supported q of None \<Rightarrow> [] | Some ss \<Rightarrow> ss);
               current = cache_strategy (kv_cache_config self)
           in if current = MODEL_DEFAULT \<and> supported_cache_strategies \<noteq> [] then
                (let default_strategy = supported_cache_strategies ! 0 in
                 Inr (self\<lparr>kv_cache_config :=
                             (kv_cache_config self)\<lparr>cache_strategy := default_strategy\<rparr>\<rparr>,
                      [(DEBUG, ''default cache_strategy of '' @
                               quote (str_strategy e default_strategy) @ '' enabled'')]))
              else if supported_cache_strategies \<noteq> []
                      \<and> current \<notin> set supported_cache_strategies then
                (let supported_strategy = supported_cache_strategies ! 0 in
                 Inr (self\<lparr>kv_cache_config :=
                             (kv_cache_config self)\<lparr>cache_strategy := supported_strategy\<rparr>\<rparr>,
                      [(WARNING, ''cache_strategy = '' @ quote (str_strategy e current) @
                                 '' not supported for '' @ quote (str_encoding e q) @
                                 '', using '' @ quote (str_strategy e supported_strategy) @
                                 '' cache strategy.'')]))
              else Inr (self, [])))"

text \<open>
  \<open>_local_weight_path\<close> takes the repository that the cached property holds. Its result
  is the location found, or \<open>None\<close>.
\<close>

definition local_weight_path ::
  "env \<Rightarrow> HuggingFaceRepo \<Rightarrow> path \<Rightarrow> error + (string option \<times> log)" where
  "local_weight_path e repo relative_path =
     (if path_exists e (str relative_path) \<and> is_file e relative_path then
        Inr (Some (str (path_resolve e relative_path)), [])
      else if repo_type repo = RepoType_local then Inr (None, [])
      else if repo_type repo = RepoType_online then
        (case try_to_load_from_cache e (repo_id repo) (str relative_path) (revision repo) of
           CachedNoExist \<Rightarrow>
             Inl (FileNotFoundError (''cached non-existent weight file at '' @
                                     str relative_path @ '' on Hugging Face''))
         | CachedPath s \<Rightarrow> Inr (if s \<noteq> [] then Some s else None, [])
         | CacheMiss \<Rightarrow> Inr (None, []))
      else
        Inr (None, [(WARNING, ''Unexpected repository type encountered: '' @
                              str_repo_type e (repo_type repo))]))"

text \<open>The truth value of an optional string: neither \<open>None\<close> nor empty.\<close>

fun truthy :: "string option \<Rightarrow> bool" where
  "truthy None = False"
| "truthy (Some s) = (s \<noteq> [])"

text \<open>The loop of \<open>_validate_final_architecture_model_path_weight_path\<close>.\<close>

fun validate_paths :: "env \<Rightarrow> HuggingFaceRepo \<Rightarrow> path list \<Rightarrow> error + log" where
  "validate_paths e repo [] = Inr []"
| "validate_paths e repo (p # ps) =
     (case local_weight_path e repo p of
        Inl err \<Rightarrow> Inl err
      | Inr (found, lg) \<Rightarrow>
          if truthy found then
            (case validate_paths e repo ps of Inl err \<Rightarrow> Inl err | Inr lg' \<Rightarrow> Inr (lg @ lg'))
          else if repo_type repo = RepoType_local then
            Inl (FileNotFoundError
              (''weight file '' @ quote (str p) @
               '' not found within the local repository path '' @ quote (repo_id repo)))
          else if repo_type repo = RepoType_online then
            if \<not> repo_file_exists e repo (str p) then
              Inl (ValueError
                (''weight_path: '' @ quote (str p) @ '' does not exist locally or in cache,'' @
                 '' and '' @ quote (repo_id repo @ ''/'' @ str p) @ '' does'' @
                 '' not exist on HuggingFace.''))
            else
              (case validate_paths e repo ps of Inl err \<Rightarrow> Inl err | Inr lg' \<Rightarrow> Inr (lg @ lg'))
          else
            Inl (RuntimeError (''unexpected repository type: '' @
                               str_repo_type e (repo_type repo))))"

definition validate_final_architecture_model_path_weight_path ::
  "env \<Rightarrow> MAXModelConfig \<Rightarrow> error + log" where
  "validate_final_architecture_model_path_weight_path e self =
     (if weight_path self = [] then Inl (AssertionError ''weight_path must be provided.'')
      else (case huggingface_weights_repo e self of
              Inl err \<Rightarrow> Inl err
            | Inr repo \<Rightarrow> validate_paths e repo (weight_path self)))"

definition validate_and_resolve_with_set_quantization_encoding ::
  "env \<Rightarrow> (SupportedEncoding \<times> KVCacheStrategy list) list \<Rightarrow> WeightsFormat \<Rightarrow> MAXModelConfig
     \<Rightarrow> error + (MAXModelConfig \<times> log)" where
  "validate_and_resolve_with_set_quantization_encoding e supported default_weights_format self =
     (case validate_quantization_encoding_device_compatibility e (map fst supported) self of
        Inl err \<Rightarrow> Inl err
      | Inr _ \<Rightarrow>
     (case finalize_encoding_config e self of
        Inl err \<Rightarrow> Inl err
      | Inr self1 \<Rightarrow>
     (case resolve_weight_path e default_weights_format self1 of
        Inl err \<Rightarrow> Inl err
      | Inr self2 \<Rightarrow>
     (case resolve_kv_cache_strategy e supported self2 of
        Inl err \<Rightarrow> Inl err
      | Inr (self3, lg) \<Rightarrow>
     (case validate_final_architecture_model_path_weight_path e self3 of
        Inl err \<Rightarrow> Inl err
      | Inr lg' \<Rightarrow> Inr (self3, lg @ lg'))))))"

text \<open>The whole resolution: \<open>resolve\<close>, then the resolution with the encoding set.\<close>

definition resolve_pipeline ::
  "env \<Rightarrow> (SupportedEncoding \<times> KVCacheStrategy list) list \<Rightarrow> WeightsFormat
     \<Rightarrow> weight_path_value \<Rightarrow> MAXModelConfig \<Rightarrow> error + (MAXModelConfig \<times> log)" where
  "resolve_pipeline e supported default_weights_format raw self =
     (case resolve e raw self of
        Inl err \<Rightarrow> Inl err
      | Inr self1 \<Rightarrow>
          validate_and_resolve_with_set_quantization_encoding e supported
            default_weights_format self1)"

section \<open>An example environment\<close>

text \<open>
  A small concrete world for running the operations: two devices, a few local files, two
  repositories on the hub, a cache.
\<close>

definition example_devices :: "DeviceSpec list" where
  "example_devices =
     [\<lparr>device_id = 0, device_type = ''cpu''\<rparr>, \<lparr>device_id = 0, device_type = ''gpu''\<rparr>]"

definition example_files :: "string list" where
  "example_files =
     [''/data/llama-q4_k_m.gguf'', ''/data/model.gguf'', ''/data/model.safetensors'',
      ''org/repo/llama-q4_k_m.gguf'', ''model.gguf'']"

definition example_hub :: "(string \<times> string) list" where
  "example_hub =
     [(''acme/llama-x'', ''model-00001.safetensors''), (''org2/repo2'', ''file.safetensors'')]"

definition example_str_encoding :: "SupportedEncoding \<Rightarrow> string" where
  "example_str_encoding q =
     (case q of float32 \<Rightarrow> ''float32'' | bfloat16 \<Rightarrow> ''bfloat16'' | gptq \<Rightarrow> ''gptq''
      | other_encoding n \<Rightarrow> n)"

definition example_parse_from_file_name :: "string \<Rightarrow> SupportedEncoding option" where
  "example_parse_from_file_name name =
     (if str_contains (lower name) ''bf16'' then Some bfloat16
      else if str_contains (lower name) ''q4_k_m'' then Some (other_encoding ''q4_k'')
      else None)"

definition example_weights_format :: "path list \<Rightarrow> WeightsFormat option" where
  "example_weights_format ps =
     (if ps = [] then None
      else if list_all (\<lambda>p. suffix p = ''.gguf'') ps then Some gguf
      else if list_all (\<lambda>p. suffix p = ''.safetensors'') ps then Some safetensors
      else if list_all (\<lambda>p. suffix p = ''.bin'') ps then Some pytorch
      else None)"

text \<open>
  The cache holds one file of the repository \<open>acme/llama-x\<close> and records the absence of
  another.
\<close>

definition example_cache :: "string \<Rightarrow> string \<Rightarrow> string \<Rightarrow> cache_result" where
  "example_cache r f rv =
     (if r = ''acme/llama-x'' \<and> f = ''model-00001.safetensors''
        then CachedPath ''/cache/acme/llama-x/model-00001.safetensors''
      else if r = ''acme/llama-x'' \<and> f = ''gone.safetensors'' then CachedNoExist
      else CacheMiss)"

definition example_env :: env where
  "example_env =
     \<lparr>devices_exist = (\<lambda>ds. list_all (\<lambda>d. d \<in> set example_devices) ds),
      scan_available_devices = example_devices,
      repr_devices = (\<lambda>ds. join_str '', '' (map device_type ds)),
      is_file = (\<lambda>p. str p \<in> set example_files),
      path_exists = (\<lambda>s. s \<in> set example_files \<or> s \<in> set [''/data'', ''org/repo'']),
      path_resolve = (\<lambda>p. p),
      hf_file_exists = (\<lambda>r f. (r, f) \<in> set example_hub),
      repo_exists_with_retry = (\<lambda>r. r \<in> set (map fst example_hub)),
      try_to_load_from_cache = example_cache,
      classify_repo =
        (\<lambda>r rev t. if r \<in> set example_files \<or> r \<in> set [''/data'', ''org/repo'']
                    then Inr RepoType_local
                    else if r \<in> set (map fst example_hub) then Inr RepoType_online
                    else Inl (ValueError (''model_path: '' @ r @ '' does not exist''))),
      encoding_for_file =
        (\<lambda>repo p. if str p = ''model-00001.safetensors'' then Some bfloat16 else None),
      supported_encodings =
        (\<lambda>repo. if repo_id repo = ''acme/llama-x'' then [bfloat16, float32] else []),
      files_for_encoding =
        (\<lambda>repo q alt.
           if repo_id repo = ''acme/llama-x'' \<and> (q = bfloat16 \<or> alt = Some bfloat16)
           then [(safetensors, [PosixPath ''model-00001.safetensors''])] else []),
      repo_file_exists = (\<lambda>repo f. (repo_id repo, f) \<in> set example_hub),
      parse_from_file_name = example_parse_from_file_name,
      supported_on = (\<lambda>q d. if q = bfloat16 then device_type d \<noteq> ''cpu'' else True),
      ALTERNATE_ENCODINGS = [float32 \<mapsto> bfloat16],
      graph_encoding_of =
        (\<lambda>q. case q of other_encoding n \<Rightarrow> Some (QuantizationEncoding n) | _ \<Rightarrow> None),
      str_encoding = example_str_encoding,
      str_strategy =
        (\<lambda>k. case k of MODEL_DEFAULT \<Rightarrow> ''model_default'' | NAIVE \<Rightarrow> ''naive''
              | CONTINUOUS \<Rightarrow> ''continuous'' | PAGED \<Rightarrow> ''paged''),
      str_repo_type =
        (\<lambda>t. case t of RepoType_online \<Rightarrow> ''online'' | RepoType_local \<Rightarrow> ''local''
              | RepoType_unexpected \<Rightarrow> ''None''),
      weights_format = example_weights_format,
      AutoConfig_from_pretrained = (\<lambda>m t rev. Inl (ExternalError ''offline''))\<rparr>"

text \<open>The configuration with every field at its default, on the CPU.\<close>

definition example_config :: MAXModelConfig where
  "example_config =
     \<lparr>model_path = [], weight_path = [], quantization_encoding = None,
      huggingface_revision = ''main'', trust_remote_code = False,
      device_specs = [\<lparr>device_id = 0, device_type = ''cpu''\<rparr>], force_download = False,
      weights_repo_id = None, quant_config = None,
      kv_cache_config =
        \<lparr>cache_strategy = MODEL_DEFAULT, kv_cache_page_size = 128,
         enable_prefix_caching = False, enable_kvcache_swapping_to_host = False,
         available_cache_memory = None\<rparr>\<rparr>"

section \<open>Facts about the example environment\<close>

lemmas example_defs =
  example_env_def example_config_def example_devices_def example_files_def example_hub_def
  example_str_encoding_def example_parse_from_file_name_def example_weights_format_def
  example_cache_def

section \<open>What the loop of resolve leaves alone\<close>

text \<open>
  The loop over the entries writes no field of the configuration other than
  \<open>_weights_repo_id\<close>.
\<close>

lemma resolve_repo_id_prefix_frame:
  "resolve_repo_id_prefix e self p = Inr (self', p') \<Longrightarrow>
   \<exists>w. self' = self\<lparr>weights_repo_id := w\<rparr>"
  unfolding resolve_repo_id_prefix_def Let_def
  by (auto split: if_splits intro: exI[of _ "weights_repo_id self"])

lemma resolve_weight_entry_frame:
  "resolve_weight_entry e self x = Inr (self', p') \<Longrightarrow>
   \<exists>w. self' = self\<lparr>weights_repo_id := w\<rparr>"
  unfolding resolve_weight_entry_def
  by (cases x)
     (auto split: if_splits dest: resolve_repo_id_prefix_frame
           intro: exI[of _ "weights_repo_id self"])

lemma resolve_weight_paths_frame:
  "resolve_weight_paths e self xs acc = Inr (self', ps) \<Longrightarrow>
   \<exists>w. self' = self\<lparr>weights_repo_id := w\<rparr>"
proof (induction xs arbitrary: self acc)
  case Nil
  then show ?case by (auto intro: exI[of _ "weights_repo_id self"])
next
  case (Cons x xs)
  from Cons.prems obtain s1 p1 where
    step: "resolve_weight_entry e self x = Inr (s1, p1)"
    and rest: "resolve_weight_paths e s1 xs (acc @ [p1]) = Inr (self', ps)"
    by (auto split: sum.splits)
  from resolve_weight_entry_frame[OF step]
  obtain w1 where s1: "s1 = self\<lparr>weights_repo_id := w1\<rparr>" ..
  from Cons.IH[OF rest] obtain w2 where "self' = s1\<lparr>weights_repo_id := w2\<rparr>" ..
  with s1 show ?case by auto
qed

section \<open>The replit override\<close>

text \<open>
  Claim C9. When \<open>resolve\<close> returns, \<open>trust_remote_code\<close> is true if the model path given
  to it contains \<open>replit\<close> in any mix of cases, whatever the caller supplied, and has the
  caller's value otherwise.
\<close>

theorem resolve_trust_remote_code:
  "resolve e raw self = Inr self' \<Longrightarrow>
   trust_remote_code self' =
     (if str_contains (lower (model_path self)) ''replit'' then True
      else trust_remote_code self)"
  unfolding resolve_def Let_def
  by (auto split: if_splits sum.splits option.splits dest!: resolve_weight_paths_frame)

theorem resolve_trust_remote_code_witness:
  "resolve example_env (WList [EPath (PosixPath ''/data/llama-q4_k_m.gguf'')])
     (example_config\<lparr>model_path := ''org2/Replit2'', trust_remote_code := False\<rparr>)
   = Inr (example_config\<lparr>model_path := ''org2/Replit2'', trust_remote_code := True,
                          weight_path := [PosixPath ''/data/llama-q4_k_m.gguf'']\<rparr>)
   \<and> str_contains (lower ''org2/Replit2'') ''replit''
   \<and> trust_remote_code
        (example_config\<lparr>model_path := ''org2/Replit2'', trust_remote_code := True,
                        weight_path := [PosixPath ''/data/llama-q4_k_m.gguf'']\<rparr>)"
proof -
  have run: "resolve example_env (WList [EPath (PosixPath ''/data/llama-q4_k_m.gguf'')])
      (example_config\<lparr>model_path := ''org2/Replit2'', trust_remote_code := False\<rparr>)
    = Inr (example_config\<lparr>model_path := ''org2/Replit2'', trust_remote_code := True,
                           weight_path := [PosixPath ''/data/llama-q4_k_m.gguf'']\<rparr>)"
    by (simp add: example_defs resolve_def resolve_weight_entry_def lower_def lower_char_def)
  have sub: "str_contains (lower ''org2/Replit2'') ''replit''"
    by (simp add: lower_def lower_char_def)
  show ?thesis
    using resolve_trust_remote_code[OF run] run sub by simp
qed

section \<open>The graph encoding accessor\<close>

text \<open>
  Claim C10. \<open>graph_quantization_encoding\<close> raises a \<open>ValueError\<close> when
  \<open>quantization_encoding\<close> is \<open>None\<close>, and only then: with an encoding set it returns the
  graph encoding of that encoding. It has no configuration among its results, since it
  assigns no field.
\<close>

theorem graph_quantization_encoding_result:
  "(quantization_encoding self = None \<longrightarrow>
      (\<exists>msg. graph_quantization_encoding e self = Inl (ValueError msg)))
   \<and> (\<forall>enc. quantization_encoding self = Some enc \<longrightarrow>
          graph_quantization_encoding e self = Inr (graph_encoding_of e enc))"
  by (simp add: graph_quantization_encoding_def)

theorem graph_quantization_encoding_result_witness:
  "quantization_encoding example_config = None
   \<and> (\<exists>msg. graph_quantization_encoding example_env example_config = Inl (ValueError msg))
   \<and> graph_quantization_encoding example_env
        (example_config\<lparr>quantization_encoding := Some (other_encoding ''q4_k'')\<rparr>)
      = Inr (Some (QuantizationEncoding ''q4_k''))"
  using graph_quantization_encoding_result[of example_config example_env]
        graph_quantization_encoding_result
          [of "example_config\<lparr>quantization_encoding := Some (other_encoding ''q4_k'')\<rparr>"
              example_env]
  by (simp add: example_env_def example_config_def)

section \<open>The cache strategy\<close>

text \<open>
  Claim C7. With the encoding set, let \<open>ss\<close> be the list that the mapping gives for it
  (empty when the encoding is not a key) and \<open>cur\<close> the current strategy. If \<open>cur\<close> is
  \<open>MODEL_DEFAULT\<close> and \<open>ss\<close> is not empty, the strategy becomes the first entry of \<open>ss\<close>.
  If \<open>cur\<close> is another strategy, \<open>ss\<close> is not empty and \<open>cur\<close> is not in it, the strategy
  becomes the first entry of \<open>ss\<close> and the only record logged is one warning; no error is
  raised. In every other case the configuration is returned as it was.
\<close>

theorem resolve_kv_cache_strategy_cases:
  assumes "quantization_encoding self = Some q"
    and "ss = (case map_of supported q of None \<Rightarrow> [] | Some l \<Rightarrow> l)"
    and "cur = cache_strategy (kv_cache_config self)"
  shows "(cur = MODEL_DEFAULT \<and> ss \<noteq> [] \<longrightarrow>
            (\<exists>msg. resolve_kv_cache_strategy e supported self =
               Inr (self\<lparr>kv_cache_config := (kv_cache_config self)\<lparr>cache_strategy := ss ! 0\<rparr>\<rparr>,
                    [(DEBUG, msg)])))
       \<and> (cur \<noteq> MODEL_DEFAULT \<and> ss \<noteq> [] \<and> cur \<notin> set ss \<longrightarrow>
            (\<exists>msg. resolve_kv_cache_strategy e supported self =
               Inr (self\<lparr>kv_cache_config := (kv_cache_config self)\<lparr>cache_strategy := ss ! 0\<rparr>\<rparr>,
                    [(WARNING, msg)])))
       \<and> (ss = [] \<or> (cur \<noteq> MODEL_DEFAULT \<and> cur \<in> set ss) \<longrightarrow>
            resolve_kv_cache_strategy e supported self = Inr (self, []))"
  using assms
  by (simp add: resolve_kv_cache_strategy_def assert_quantization_encoding_def Let_def)

theorem resolve_kv_cache_strategy_cases_witness:
  "(\<exists>msg. resolve_kv_cache_strategy example_env [(other_encoding ''q4_k'', [PAGED])]
       (example_config\<lparr>quantization_encoding := Some (other_encoding ''q4_k''),
          kv_cache_config := (kv_cache_config example_config)\<lparr>cache_strategy := CONTINUOUS\<rparr>\<rparr>)
     = Inr (example_config\<lparr>quantization_encoding := Some (other_encoding ''q4_k''),
              kv_cache_config := (kv_cache_config example_config)\<lparr>cache_strategy := PAGED\<rparr>\<rparr>,
            [(WARNING, msg)]))
   \<and> (\<exists>msg. resolve_kv_cache_strategy example_env [(bfloat16, [PAGED, CONTINUOUS])]
       (example_config\<lparr>quantization_encoding := Some bfloat16\<rparr>)
     = Inr (example_config\<lparr>quantization_encoding := Some bfloat16,
              kv_cache_config := (kv_cache_config example_config)\<lparr>cache_strategy := PAGED\<rparr>\<rparr>,
            [(DEBUG, msg)]))
   \<and> resolve_kv_cache_strategy example_env [(bfloat16, [PAGED, CONTINUOUS])]
       (example_config\<lparr>quantization_encoding := Some float32,
          kv_cache_config := (kv_cache_config example_config)\<lparr>cache_strategy := NAIVE\<rparr>\<rparr>)
     = Inr (example_config\<lparr>quantization_encoding := Some float32,
              kv_cache_config := (kv_cache_config example_config)\<lparr>cache_strategy := NAIVE\<rparr>\<rparr>, [])"
  using resolve_kv_cache_strategy_cases
          [of "example_config\<lparr>quantization_encoding := Some (other_encoding ''q4_k''),
                 kv_cache_config := (kv_cache_config example_config)\<lparr>cache_strategy := CONTINUOUS\<rparr>\<rparr>"
              "other_encoding ''q4_k''" "[PAGED]" "[(other_encoding ''q4_k'', [PAGED])]" CONTINUOUS
              example_env]
        resolve_kv_cache_strategy_cases
          [of "example_config\<lparr>quantization_encoding := Some bfloat16\<rparr>"
              bfloat16 "[PAGED, CONTINUOUS]" "[(bfloat16, [PAGED, CONTINUOUS])]" MODEL_DEFAULT
              example_env]
        resolve_kv_cache_strategy_cases
          [of "example_config\<lparr>quantization_encoding := Some float32,
                 kv_cache_config := (kv_cache_config example_config)\<lparr>cache_strategy := NAIVE\<rparr>\<rparr>"
              float32 "[]" "[(bfloat16, [PAGED, CONTINUOUS])]" NAIVE
              example_env]
  by (simp add: example_config_def)

section \<open>Entries that are local files\<close>

text \<open>
  An entry that is a \<open>Path\<close> and an existing file is appended as it is: a list of such
  entries passes through the loop unchanged, without an error and without a write to
  \<open>_weights_repo_id\<close>.
\<close>

lemma resolve_weight_paths_local_Path_entries:
  "\<forall>p \<in> set ps. is_file e p \<Longrightarrow>
   resolve_weight_paths e self (map EPath ps) acc = Inr (self, acc @ ps)"
  by (induction ps arbitrary: acc) (simp_all add: resolve_weight_entry_def)

lemma resolve_local_Path_entries:
  assumes "devices_exist e (device_specs self)"
    and "\<forall>p \<in> set ps. is_file e p" and "ps \<noteq> []"
    and "\<not> str_contains (lower (model_path self)) ''replit''"
    and "weights_repo_id self = None"
  shows "resolve e (WList (map EPath ps)) self = Inr (self\<lparr>weight_path := ps\<rparr>)"
  using assms
  by (simp add: resolve_def resolve_weight_paths_local_Path_entries)

text \<open>
  Claim C1. Normalisation should keep every entry that exists as a local file, whether it
  was given as a string or as a \<open>Path\<close>. The code does so for a \<open>Path\<close> only. A string
  that names an existing file is still split: \<open>org/repo/llama-q4_k_m.gguf\<close> under the model
  path \<open>org/repo\<close> becomes \<open>llama-q4_k_m.gguf\<close>, and \<open>model.gguf\<close> with no model path raises
  the \<open>ValueError\<close> of line 249, where the same file given as a \<open>Path\<close> is kept.
\<close>

theorem resolve_string_entry_of_local_file:
  "is_file example_env (Path ''org/repo/llama-q4_k_m.gguf'')
   \<and> resolve example_env (WList [EStr ''org/repo/llama-q4_k_m.gguf''])
        (example_config\<lparr>model_path := ''org/repo''\<rparr>)
     = Inr (example_config\<lparr>model_path := ''org/repo'',
                            weight_path := [PosixPath ''llama-q4_k_m.gguf'']\<rparr>)
   \<and> is_file example_env (Path ''model.gguf'')
   \<and> resolve example_env (WList [EStr ''model.gguf'']) example_config
     = Inl (ValueError (''Unable to derive model_path from weight_path, '' @
                        ''please provide a valid Hugging Face repository id.''))
   \<and> resolve example_env (WList [EPath (Path ''model.gguf'')]) example_config
     = Inr (example_config\<lparr>weight_path := [PosixPath ''model.gguf'']\<rparr>)"
  by (simp add: example_defs resolve_def resolve_weight_entry_def resolve_repo_id_prefix_def
        Path_def splitroot_def lower_def lower_char_def)

section \<open>Entries that start with a repository id\<close>

text \<open>
  One pass of the loop over an entry that is a string, or a \<open>Path\<close> that is not an
  existing file, whose path has at least three pieces.
\<close>

lemma resolve_weight_entry_repo_id_step:
  assumes "entry = EStr s \<and> p = Path s \<or> entry = EPath p \<and> \<not> is_file e p"
    and "split_str CHR ''/'' (str p) = org # name # f # fs"
  shows "(org @ ''/'' @ name = model_path self \<longrightarrow>
            resolve_weight_entry e self entry = Inr (self, Path (join_str ''/'' (f # fs))))
       \<and> (org @ ''/'' @ name \<noteq> model_path self
            \<and> hf_file_exists e (org @ ''/'' @ name) (join_str ''/'' (f # fs)) \<longrightarrow>
            resolve_weight_entry e self entry =
              Inr (self\<lparr>weights_repo_id := Some (org @ ''/'' @ name)\<rparr>,
                   Path (join_str ''/'' (f # fs))))"
  using assms
  by (auto simp add: resolve_weight_entry_def resolve_repo_id_prefix_def Let_def)

text \<open>The loop over a list in two parts, and the paths it has collected when it returns.\<close>

lemma resolve_weight_paths_append:
  "resolve_weight_paths e self (xs @ ys) acc =
     (case resolve_weight_paths e self xs acc of
        Inl err \<Rightarrow> Inl err
      | Inr (self1, ps) \<Rightarrow> resolve_weight_paths e self1 ys ps)"
  by (induction xs arbitrary: self acc) (auto split: sum.splits)

lemma resolve_weight_paths_collects:
  "resolve_weight_paths e self xs acc = Inr (self', ps) \<Longrightarrow>
   \<exists>qs. ps = acc @ qs \<and> length qs = length xs"
proof (induction xs arbitrary: self acc)
  case Nil
  then show ?case by simp
next
  case (Cons x xs)
  from Cons.prems obtain s1 p1 where
    rest: "resolve_weight_paths e s1 xs (acc @ [p1]) = Inr (self', ps)"
    by (auto split: sum.splits)
  from Cons.IH[OF rest] obtain qs where "ps = (acc @ [p1]) @ qs" "length qs = length xs"
    by blast
  then have "ps = acc @ (p1 # qs) \<and> length (p1 # qs) = length (x # xs)" by simp
  then show ?case by blast
qed

text \<open>What \<open>resolve\<close> returns is the configuration after the loop, with the collected paths.\<close>

lemma resolve_returns_loop_result:
  assumes "resolve e raw self = Inr self'"
  shows "\<exists>s0 s2. model_path s0 = model_path self \<and> weights_repo_id s0 = weights_repo_id self
           \<and> resolve_weight_paths e s0 (as_list raw) [] = Inr (s2, weight_path self')
           \<and> weights_repo_id self' = weights_repo_id s2"
proof -
  let ?s0 = "if str_contains (lower (model_path self)) ''replit''
             then self\<lparr>trust_remote_code := True\<rparr> else self"
  from assms obtain s2 wps where
    loop: "resolve_weight_paths e ?s0 (as_list raw) [] = Inr (s2, wps)"
    by (auto simp add: resolve_def Let_def split: if_splits sum.splits)
  from assms loop have "weight_path self' = wps \<and> weights_repo_id self' = weights_repo_id s2"
    by (auto simp add: resolve_def Let_def split: if_splits option.splits)
  with loop have "model_path ?s0 = model_path self \<and> weights_repo_id ?s0 = weights_repo_id self
      \<and> resolve_weight_paths e ?s0 (as_list raw) [] = Inr (s2, weight_path self')
      \<and> weights_repo_id self' = weights_repo_id s2"
    by simp
  then show ?thesis by blast
qed

text \<open>
  Claim C5. Take an entry of the weight path that is a string, or a \<open>Path\<close> that is not
  an existing file, whose path has at least three pieces \<open>org\<close>, \<open>name\<close>, \<open>f\<close>, ... when
  split at the slashes, with any entries \<open>pre\<close> before it and \<open>post\<close> after it. When
  \<open>resolve\<close> returns:
  if \<open>org/name\<close> is the model path, the weight path holds the path of the remaining pieces
  at the place of the entry, and when the entry is the only one \<open>_weights_repo_id\<close> is
  what it was;
  if \<open>org/name\<close> differs from the model path and the hub confirms the remaining file
  name in that repository, the weight path holds the path of the remaining pieces at the
  place of the entry, and \<open>_weights_repo_id\<close> is \<open>org/name\<close> unless an entry after it
  has set it again.
  With the devices available, \<open>resolve\<close> does return for such an entry alone.
\<close>

theorem resolve_repo_id_prefix_entry:
  assumes entry: "entry = EStr s \<and> p = Path s \<or> entry = EPath p \<and> \<not> is_file e p"
    and pieces: "split_str CHR ''/'' (str p) = org # name # f # fs"
  shows "(\<forall>self'. resolve e (WList (pre @ entry # post)) self = Inr self' \<longrightarrow>
            (org @ ''/'' @ name = model_path self \<longrightarrow>
               length (weight_path self') = length pre + 1 + length post
             \<and> weight_path self' ! length pre = Path (join_str ''/'' (f # fs))
             \<and> (pre = [] \<and> post = [] \<longrightarrow> weights_repo_id self' = weights_repo_id self))
          \<and> (org @ ''/'' @ name \<noteq> model_path self
               \<and> hf_file_exists e (org @ ''/'' @ name) (join_str ''/'' (f # fs)) \<longrightarrow>
               length (weight_path self') = length pre + 1 + length post
             \<and> weight_path self' ! length pre = Path (join_str ''/'' (f # fs))
             \<and> (post = [] \<longrightarrow> weights_repo_id self' = Some (org @ ''/'' @ name))))
       \<and> (devices_exist e (device_specs self)
            \<and> (org @ ''/'' @ name = model_path self
                \<or> hf_file_exists e (org @ ''/'' @ name) (join_str ''/'' (f # fs))) \<longrightarrow>
            (\<exists>self'. resolve e (WList [entry]) self = Inr self'))"
proof (intro conjI allI impI)
  fix self'
  assume ret: "resolve e (WList (pre @ entry # post)) self = Inr self'"
  let ?file = "Path (join_str ''/'' (f # fs))"
  let ?repo = "org @ ''/'' @ name"
  from resolve_returns_loop_result[OF ret] obtain s0 s2 where
    s0: "model_path s0 = model_path self" "weights_repo_id s0 = weights_repo_id self"
    and loop: "resolve_weight_paths e s0 (pre @ entry # post) [] = Inr (s2, weight_path self')"
    and id: "weights_repo_id self' = weights_repo_id s2"
    by auto
  from loop obtain s1 ps1 where
    before: "resolve_weight_paths e s0 pre [] = Inr (s1, ps1)"
    and from_entry: "resolve_weight_paths e s1 (entry # post) ps1 = Inr (s2, weight_path self')"
    by (auto simp add: resolve_weight_paths_append split: sum.splits)
  from resolve_weight_paths_collects[OF before] have len1: "length ps1 = length pre" by auto
  from resolve_weight_paths_frame[OF before] s0
  have mp1: "model_path s1 = model_path self" by auto
  have pre_nil: "s1 = s0" if "pre = []" using before that by simp
  have placed:
    "length (weight_path self') = length pre + 1 + length post
     \<and> weight_path self' ! length pre = ?file
     \<and> (post = [] \<longrightarrow> s2 = s1')"
    if step: "resolve_weight_entry e s1 entry = Inr (s1', ?file)" for s1'
  proof -
    from from_entry step
    have after: "resolve_weight_paths e s1' post (ps1 @ [?file]) = Inr (s2, weight_path self')"
      by simp
    from resolve_weight_paths_collects[OF after] obtain qs where
      "weight_path self' = (ps1 @ [?file]) @ qs" "length qs = length post" by blast
    with len1 have "length (weight_path self') = length pre + 1 + length post
        \<and> weight_path self' ! length pre = ?file"
      by (simp add: nth_append)
    moreover have "s2 = s1'" if "post = []" using after that by simp
    ultimately show ?thesis by blast
  qed
  {
    assume same: "?repo = model_path self"
    with mp1 have "?repo = model_path s1" by simp
    with resolve_weight_entry_repo_id_step[OF entry pieces, of s1]
    have "resolve_weight_entry e s1 entry = Inr (s1, ?file)" by blast
    from placed[OF this] pre_nil s0 id
    show "length (weight_path self') = length pre + 1 + length post"
      and "weight_path self' ! length pre = ?file"
      and "pre = [] \<and> post = [] \<Longrightarrow> weights_repo_id self' = weights_repo_id self"
      by auto
  }
  {
    assume other: "?repo \<noteq> model_path self \<and> hf_file_exists e ?repo (join_str ''/'' (f # fs))"
    with mp1 have "?repo \<noteq> model_path s1 \<and> hf_file_exists e ?repo (join_str ''/'' (f # fs))"
      by simp
    with resolve_weight_entry_repo_id_step[OF entry pieces, of s1]
    have "resolve_weight_entry e s1 entry = Inr (s1\<lparr>weights_repo_id := Some ?repo\<rparr>, ?file)"
      by blast
    from placed[OF this] id
    show "length (weight_path self') = length pre + 1 + length post"
      and "weight_path self' ! length pre = ?file"
      and "post = [] \<Longrightarrow> weights_repo_id self' = Some ?repo"
      by auto
  }
next
  let ?file = "Path (join_str ''/'' (f # fs))"
  let ?repo = "org @ ''/'' @ name"
  let ?s0 = "if str_contains (lower (model_path self)) ''replit''
             then self\<lparr>trust_remote_code := True\<rparr> else self"
  assume a: "devices_exist e (device_specs self)
    \<and> (?repo = model_path self \<or> hf_file_exists e ?repo (join_str ''/'' (f # fs)))"
  have mp: "model_path ?s0 = model_path self" by simp
  from a mp resolve_weight_entry_repo_id_step[OF entry pieces, of ?s0]
  have "\<exists>s1. resolve_weight_entry e ?s0 entry = Inr (s1, ?file)" by metis
  then obtain s1 where step: "resolve_weight_entry e ?s0 entry = Inr (s1, ?file)" ..
  with a show "\<exists>self'. resolve e (WList [entry]) self = Inr self'"
    by (simp add: resolve_def Let_def split: option.splits)
qed

theorem resolve_repo_id_prefix_entry_witness:
  "resolve example_env (WList [EStr ''acme/llama-x/model-00001.safetensors''])
     (example_config\<lparr>model_path := ''acme/llama-x''\<rparr>)
   = Inr (example_config\<lparr>model_path := ''acme/llama-x'',
            weight_path := [PosixPath ''model-00001.safetensors'']\<rparr>)
   \<and> \<not> is_file example_env (PosixPath ''org2/repo2/file.safetensors'')
   \<and> hf_file_exists example_env ''org2/repo2'' ''file.safetensors''
   \<and> resolve example_env
        (WList [EPath (PosixPath ''/data/llama-q4_k_m.gguf''),
                EPath (PosixPath ''org2/repo2/file.safetensors'')])
        (example_config\<lparr>model_path := ''acme/llama-x''\<rparr>)
     = Inr (example_config\<lparr>model_path := ''acme/llama-x'',
              weight_path := [PosixPath ''/data/llama-q4_k_m.gguf'', PosixPath ''file.safetensors''],
              weights_repo_id := Some ''org2/repo2''\<rparr>)
   \<and> [PosixPath ''/data/llama-q4_k_m.gguf'', PosixPath ''file.safetensors''] ! 1
       = Path ''file.safetensors''"
proof -
  let ?c = "example_config\<lparr>model_path := ''acme/llama-x''\<rparr>"
  let ?local = "EPath (PosixPath ''/data/llama-q4_k_m.gguf'')"
  have e1: "EStr ''acme/llama-x/model-00001.safetensors'' = EStr ''acme/llama-x/model-00001.safetensors''
        \<and> Path ''acme/llama-x/model-00001.safetensors'' = Path ''acme/llama-x/model-00001.safetensors''
      \<or> EStr ''acme/llama-x/model-00001.safetensors'' = EPath (Path ''acme/llama-x/model-00001.safetensors'')
        \<and> \<not> is_file example_env (Path ''acme/llama-x/model-00001.safetensors'')"
    by simp
  have p1: "split_str CHR ''/'' (str (Path ''acme/llama-x/model-00001.safetensors''))
             = ''acme'' # ''llama-x'' # ''model-00001.safetensors'' # []"
    by (simp add: Path_def splitroot_def)
  have nofile: "\<not> is_file example_env (PosixPath ''org2/repo2/file.safetensors'')"
    by (simp add: example_defs)
  have hub: "hf_file_exists example_env ''org2/repo2'' ''file.safetensors''"
    by (simp add: example_defs)
  have e2: "EPath (PosixPath ''org2/repo2/file.safetensors'') = EStr []
        \<and> PosixPath ''org2/repo2/file.safetensors'' = Path []
      \<or> EPath (PosixPath ''org2/repo2/file.safetensors'')
          = EPath (PosixPath ''org2/repo2/file.safetensors'')
        \<and> \<not> is_file example_env (PosixPath ''org2/repo2/file.safetensors'')"
    using nofile by simp
  have p2: "split_str CHR ''/'' (str (PosixPath ''org2/repo2/file.safetensors''))
             = ''org2'' # ''repo2'' # ''file.safetensors'' # []"
    by simp
  have run1: "resolve example_env (WList [EStr ''acme/llama-x/model-00001.safetensors'']) ?c
      = Inr (example_config\<lparr>model_path := ''acme/llama-x'',
               weight_path := [PosixPath ''model-00001.safetensors'']\<rparr>)"
    by (simp add: example_defs resolve_def resolve_weight_entry_def resolve_repo_id_prefix_def
          Path_def splitroot_def lower_def lower_char_def)
  have run2: "resolve example_env (WList [?local, EPath (PosixPath ''org2/repo2/file.safetensors'')]) ?c
      = Inr (example_config\<lparr>model_path := ''acme/llama-x'',
              weight_path := [PosixPath ''/data/llama-q4_k_m.gguf'', PosixPath ''file.safetensors''],
              weights_repo_id := Some ''org2/repo2''\<rparr>)"
    by (simp add: example_defs resolve_def resolve_weight_entry_def resolve_repo_id_prefix_def
          Path_def splitroot_def lower_def lower_char_def)
  have placed: "[PosixPath ''/data/llama-q4_k_m.gguf'', PosixPath ''file.safetensors''] ! 1
       = Path ''file.safetensors''"
    using resolve_repo_id_prefix_entry[OF e2 p2, of "[?local]" "[]" ?c] run2 hub
    by simp
  from resolve_repo_id_prefix_entry[OF e1 p1, of "[]" "[]" ?c] run1 run2 nofile hub placed
  show ?thesis by simp
qed

section \<open>Substrings of messages\<close>

lemma startswith_append: "startswith (s @ b) s"
  by (induction s) simp_all

lemma startswith_str_contains: "startswith r sub \<Longrightarrow> str_contains r sub"
  by (cases r; cases sub) simp_all

lemma str_contains_middle: "str_contains (a @ s @ b) s"
proof (induction a)
  case Nil
  show ?case using startswith_str_contains[OF startswith_append] by simp
next
  case (Cons x a)
  then show ?case by simp
qed

lemma str_contains_quote_middle: "str_contains (a @ quote s @ b) s"
proof -
  have "a @ quote s @ b = (a @ [CHR 0x27]) @ s @ ([CHR 0x27] @ b)"
    by (simp add: quote_def)
  then show ?thesis by (simp only: str_contains_middle)
qed

section \<open>Inferring the encoding from the weight path\<close>

text \<open>
  With a weight path, no encoding and a format other than pytorch, two failures of the
  inference raise a \<open>ValueError\<close>: a first file that exists locally with the suffix
  \<open>.safetensors\<close>, and a first file that does not exist locally for which the repository
  gives no encoding.
\<close>

lemma local_safetensors_requires_encoding:
  assumes "weight_path self \<noteq> []" and "quantization_encoding self = None"
    and "weights_format e (weight_path self) \<noteq> Some pytorch"
    and "path_exists e (str (weight_path self ! 0))"
    and "suffix (weight_path self ! 0) = ''.safetensors''"
  shows "\<exists>msg. validate_and_resolve_quantization_encoding_weight_path e d self = Inl (ValueError msg)"
  using assms by (simp add: validate_and_resolve_quantization_encoding_weight_path_def)

lemma remote_inference_failure_raises:
  assumes "weight_path self \<noteq> []" and "quantization_encoding self = None"
    and "weights_format e (weight_path self) \<noteq> Some pytorch"
    and "\<not> path_exists e (str (weight_path self ! 0))"
    and "huggingface_weights_repo e self = Inr repo"
    and "encoding_for_file e repo (weight_path self ! 0) = None"
  shows "\<exists>msg. validate_and_resolve_quantization_encoding_weight_path e d self = Inl (ValueError msg)"
  using assms by (simp add: validate_and_resolve_quantization_encoding_weight_path_def)

text \<open>
  Claim C3. Whenever no encoding can be inferred, resolution should fail with a
  \<open>ValueError\<close> rather than leave the encoding unset. The branch for a file that exists
  locally has no such \<open>else\<close>: for the local file \<open>/data/model.gguf\<close>, whose name carries
  no encoding, the function returns and \<open>quantization_encoding\<close> is still \<open>None\<close>.
\<close>

theorem local_inference_failure_returns_unset:
  "path_exists example_env (str (PosixPath ''/data/model.gguf''))
   \<and> suffix (PosixPath ''/data/model.gguf'') = ''.gguf''
   \<and> weights_format example_env [PosixPath ''/data/model.gguf''] = Some gguf
   \<and> parse_from_file_name example_env (str (PosixPath ''/data/model.gguf'')) = None
   \<and> validate_and_resolve_quantization_encoding_weight_path example_env float32
        (example_config\<lparr>model_path := ''/data'', weight_path := [PosixPath ''/data/model.gguf'']\<rparr>)
      = Inr (example_config\<lparr>model_path := ''/data'', weight_path := [PosixPath ''/data/model.gguf''],
                             quantization_encoding := None\<rparr>, [])"
  by (simp add: example_defs validate_and_resolve_quantization_encoding_weight_path_def
        suffix_def lower_def lower_char_def)

section \<open>An explicit encoding that contradicts the weight file\<close>

text \<open>
  Claim C6. With a weight path, an explicit encoding \<open>q\<close> and a format other than pytorch,
  let \<open>fe\<close> be the encoding of the first weight file: parsed from its name when the file
  exists locally, given by the repository otherwise. If \<open>fe\<close> differs from \<open>q\<close>, the
  function raises a \<open>ValueError\<close> whose message contains the names of both encodings.
\<close>

theorem inconsistent_encoding_raises:
  assumes "weight_path self \<noteq> []" and "quantization_encoding self = Some q"
    and "weights_format e (weight_path self) \<noteq> Some pytorch"
    and "path_exists e (str (weight_path self ! 0))
           \<and> parse_from_file_name e (str (weight_path self ! 0)) = Some fe
         \<or> \<not> path_exists e (str (weight_path self ! 0))
           \<and> (\<exists>repo. huggingface_weights_repo e self = Inr repo
                  \<and> encoding_for_file e repo (weight_path self ! 0) = Some fe)"
    and "fe \<noteq> q"
  shows "\<exists>msg. validate_and_resolve_quantization_encoding_weight_path e d self = Inl (ValueError msg)
           \<and> str_contains msg (str_encoding e fe) \<and> str_contains msg (str_encoding e q)"
proof -
  let ?p = "quote (str (weight_path self ! 0))"
  let ?msg = "''weight_path provided '' @ ?p @
      '' has an inconsistent encoding '' @ quote (str_encoding e fe) @
      '' than quantization_encoding provided '' @ quote (str_encoding e q) @
      ''. Please update one.''"
  from assms(4) have enc: "first_file_encoding e self = Inr (Some fe)"
    by (auto simp add: first_file_encoding_def)
  have run: "validate_and_resolve_quantization_encoding_weight_path e d self = Inl (ValueError ?msg)"
    using assms(1,2,3,5) enc
    by (simp add: validate_and_resolve_quantization_encoding_weight_path_def)
  have one: "str_contains ?msg (str_encoding e fe)"
    using str_contains_quote_middle
      [of "''weight_path provided '' @ ?p @ '' has an inconsistent encoding ''" "str_encoding e fe"
          "'' than quantization_encoding provided '' @ quote (str_encoding e q) @ ''. Please update one.''"]
    by (simp only: append_assoc)
  have two: "str_contains ?msg (str_encoding e q)"
    using str_contains_quote_middle
      [of "''weight_path provided '' @ ?p @ '' has an inconsistent encoding '' @ quote (str_encoding e fe) @
      '' than quantization_encoding provided ''" "str_encoding e q" "''. Please update one.''"]
    by (simp only: append_assoc)
  from run one two show ?thesis by blast
qed


theorem inconsistent_encoding_raises_witness:
  "huggingface_weights_repo example_env
      (example_config\<lparr>model_path := ''acme/llama-x'',
         weight_path := [PosixPath ''model-00001.safetensors''],
         quantization_encoding := Some float32\<rparr>)
    = Inr \<lparr>repo_id = ''acme/llama-x'', revision = ''main'', repo_trust_remote_code = False,
           repo_type = RepoType_online\<rparr>
   \<and> encoding_for_file example_env
        \<lparr>repo_id = ''acme/llama-x'', revision = ''main'', repo_trust_remote_code = False,
         repo_type = RepoType_online\<rparr> (PosixPath ''model-00001.safetensors'') = Some bfloat16
   \<and> (\<exists>msg. validate_and_resolve_quantization_encoding_weight_path example_env float32
          (example_config\<lparr>model_path := ''acme/llama-x'',
             weight_path := [PosixPath ''model-00001.safetensors''],
             quantization_encoding := Some float32\<rparr>) = Inl (ValueError msg)
        \<and> str_contains msg ''bfloat16'' \<and> str_contains msg ''float32'')"
proof -
  let ?c = "example_config\<lparr>model_path := ''acme/llama-x'',
         weight_path := [PosixPath ''model-00001.safetensors''],
         quantization_encoding := Some float32\<rparr>"
  let ?r = "\<lparr>repo_id = ''acme/llama-x'', revision = ''main'', repo_trust_remote_code = False,
           repo_type = RepoType_online\<rparr>"
  have h1: "weight_path ?c \<noteq> []" by simp
  have h2: "quantization_encoding ?c = Some float32" by simp
  have h3: "weights_format example_env (weight_path ?c) \<noteq> Some pytorch"
    by (simp add: example_defs suffix_def)
  have repo: "huggingface_weights_repo example_env ?c = Inr ?r"
    by (simp add: example_defs huggingface_weights_repo_def)
  have enc: "encoding_for_file example_env ?r (PosixPath ''model-00001.safetensors'') = Some bfloat16"
    by (simp add: example_defs)
  have h4: "path_exists example_env (str (weight_path ?c ! 0))
           \<and> parse_from_file_name example_env (str (weight_path ?c ! 0)) = Some bfloat16
         \<or> \<not> path_exists example_env (str (weight_path ?c ! 0))
           \<and> (\<exists>repo. huggingface_weights_repo example_env ?c = Inr repo
                  \<and> encoding_for_file example_env repo (weight_path ?c ! 0) = Some bfloat16)"
    using repo enc by (simp add: example_defs)
  have h5: "bfloat16 \<noteq> float32" by simp
  have s: "str_encoding example_env bfloat16 = ''bfloat16''"
      "str_encoding example_env float32 = ''float32''"
    by (simp_all add: example_defs)
  from inconsistent_encoding_raises[OF h1 h2 h3 h4 h5, of float32] repo enc
  show ?thesis unfolding s by blast
qed

section \<open>Choosing an encoding without a weight path\<close>

text \<open>
  Claim C2, as stated, takes \<open>bfloat16\<close> if any requested device is not a CPU. The code
  looks at the first device only: with the devices \<open>cpu\<close>, \<open>gpu\<close> in this order and a
  repository that supports \<open>bfloat16\<close> and \<open>float32\<close>, the default encoding is taken.
\<close>

theorem first_device_decides_bfloat16:
  "weight_path (example_config\<lparr>model_path := ''acme/llama-x'', device_specs := example_devices\<rparr>) = []
   \<and> quantization_encoding
        (example_config\<lparr>model_path := ''acme/llama-x'', device_specs := example_devices\<rparr>) = None
   \<and> device_type
        (device_specs (example_config\<lparr>model_path := ''acme/llama-x'', device_specs := example_devices\<rparr>) ! 1)
      = ''gpu''
   \<and> huggingface_weights_repo example_env
        (example_config\<lparr>model_path := ''acme/llama-x'', device_specs := example_devices\<rparr>)
      = Inr \<lparr>repo_id = ''acme/llama-x'', revision = ''main'', repo_trust_remote_code = False,
             repo_type = RepoType_online\<rparr>
   \<and> supported_encodings example_env
        \<lparr>repo_id = ''acme/llama-x'', revision = ''main'', repo_trust_remote_code = False,
         repo_type = RepoType_online\<rparr> = [bfloat16, float32]
   \<and> validate_and_resolve_quantization_encoding_weight_path example_env float32
        (example_config\<lparr>model_path := ''acme/llama-x'', device_specs := example_devices\<rparr>)
      = Inr (example_config\<lparr>model_path := ''acme/llama-x'', device_specs := example_devices,
                             quantization_encoding := Some float32\<rparr>,
             [(DEBUG, ''encoding not provided, using default encoding of float32'')])"
  by (simp add: example_defs validate_and_resolve_quantization_encoding_weight_path_def
        huggingface_weights_repo_def)

text \<open>
  Claim C2, amended. With no weight path, no encoding, a repository and at least one
  device: if the repository supports exactly one encoding, that one is taken; otherwise,
  if the first device is not a CPU and \<open>bfloat16\<close> is supported, \<open>bfloat16\<close> is taken;
  otherwise the default encoding of the caller is taken.
\<close>

theorem encoding_choice_without_weight_path:
  assumes "weight_path self = []" and "quantization_encoding self = None"
    and "huggingface_weights_repo e self = Inr repo"
    and "device_specs self = d0 # ds"
    and "encs = supported_encodings e repo"
  shows "\<exists>lg. validate_and_resolve_quantization_encoding_weight_path e default_encoding self =
           Inr (self\<lparr>quantization_encoding :=
                        Some (if length encs = 1 then encs ! 0
                              else if device_type d0 \<noteq> ''cpu'' \<and> bfloat16 \<in> set encs then bfloat16
                              else default_encoding)\<rparr>, lg)"
  using assms
  by (simp add: validate_and_resolve_quantization_encoding_weight_path_def Let_def)

theorem encoding_choice_without_weight_path_witness:
  "(\<exists>lg. validate_and_resolve_quantization_encoding_weight_path example_env float32
      (example_config\<lparr>model_path := ''acme/llama-x'',
         device_specs := [\<lparr>device_id = 0, device_type = ''gpu''\<rparr>]\<rparr>) =
      Inr (example_config\<lparr>model_path := ''acme/llama-x'',
             device_specs := [\<lparr>device_id = 0, device_type = ''gpu''\<rparr>],
             quantization_encoding := Some bfloat16\<rparr>, lg))"
proof -
  let ?c = "example_config\<lparr>model_path := ''acme/llama-x'',
         device_specs := [\<lparr>device_id = 0, device_type = ''gpu''\<rparr>]\<rparr>"
  let ?r = "\<lparr>repo_id = ''acme/llama-x'', revision = ''main'', repo_trust_remote_code = False,
           repo_type = RepoType_online\<rparr>"
  have h1: "weight_path ?c = []" by (simp add: example_config_def)
  have h2: "quantization_encoding ?c = None" by (simp add: example_config_def)
  have h3: "huggingface_weights_repo example_env ?c = Inr ?r"
    by (simp add: example_defs huggingface_weights_repo_def)
  have h4: "device_specs ?c = \<lparr>device_id = 0, device_type = ''gpu''\<rparr> # []" by simp
  have h5: "[bfloat16, float32] = supported_encodings example_env ?r"
    by (simp add: example_defs)
  from encoding_choice_without_weight_path[OF h1 h2 h3 h4 h5, of float32]
  show ?thesis by simp
qed

section \<open>The state at the end of the resolution\<close>

text \<open>
  \<open>resolve\<close> returns with an empty model path only when it was given an empty one and
  no repository id is recorded for the weights. The later stages write \<open>_quant_config\<close>,
  \<open>weight_path\<close> and the cache strategy, and nothing else.
\<close>

lemma resolve_empty_model_path:
  "resolve e raw self = Inr s \<Longrightarrow> model_path s = [] \<Longrightarrow>
   model_path self = [] \<and> (weights_repo_id s = None \<or> weights_repo_id s = Some [])"
  unfolding resolve_def Let_def
  by (auto split: if_splits sum.splits option.splits dest!: resolve_weight_paths_frame)

lemma huggingface_weights_repo_empty_id:
  "huggingface_weights_repo e s = Inr repo \<Longrightarrow> model_path s = [] \<Longrightarrow>
   weights_repo_id s = None \<or> weights_repo_id s = Some [] \<Longrightarrow>
   classify_repo e [] (huggingface_revision s) (trust_remote_code s) = Inr (repo_type repo)"
  unfolding huggingface_weights_repo_def Let_def
  by (auto split: sum.splits)

lemma finalize_encoding_config_frame:
  "finalize_encoding_config e s = Inr s' \<Longrightarrow> \<exists>qc. s' = s\<lparr>quant_config := qc\<rparr>"
  unfolding finalize_encoding_config_def
  by (auto split: if_splits sum.splits intro: exI[of _ "quant_config s"])

lemma default_weight_path_frame:
  "default_weight_path e fmt q s = Inr s' \<Longrightarrow> \<exists>wp. s' = s\<lparr>weight_path := wp\<rparr>"
  unfolding default_weight_path_def Let_def
  by (auto split: if_splits sum.splits list.splits intro: exI[of _ "weight_path s"])

lemma resolve_weight_path_result:
  "resolve_weight_path e fmt s = Inr s' \<Longrightarrow>
   (\<exists>wp. s' = s\<lparr>weight_path := wp\<rparr>) \<and> weight_path s' \<noteq> [] \<and> quantization_encoding s \<noteq> None"
  unfolding resolve_weight_path_def assert_quantization_encoding_def
  by (auto split: if_splits sum.splits option.splits dest: default_weight_path_frame)

lemma resolve_kv_cache_strategy_frame:
  assumes "resolve_kv_cache_strategy e supported s = Inr (s', lg)"
  shows "\<exists>k. s' = s\<lparr>kv_cache_config := k\<rparr>"
proof (cases "quantization_encoding s")
  case None
  with assms show ?thesis
    by (simp add: resolve_kv_cache_strategy_def assert_quantization_encoding_def)
next
  case (Some q)
  let ?ss = "case map_of supported q of None \<Rightarrow> [] | Some ss \<Rightarrow> ss"
  let ?k = "(kv_cache_config s)\<lparr>cache_strategy := ?ss ! 0\<rparr>"
  from assms Some have "s' = s\<lparr>kv_cache_config := ?k\<rparr> \<or> s' = s"
    by (simp add: resolve_kv_cache_strategy_def assert_quantization_encoding_def Let_def
             split: if_splits)
  then show ?thesis
  proof
    assume "s' = s\<lparr>kv_cache_config := ?k\<rparr>"
    then show ?thesis ..
  next
    assume "s' = s"
    then have "s' = s\<lparr>kv_cache_config := kv_cache_config s\<rparr>" by simp
    then show ?thesis ..
  qed
qed

lemma validate_final_returns:
  "validate_final_architecture_model_path_weight_path e s = Inr lg \<Longrightarrow>
   weight_path s \<noteq> [] \<and> (\<exists>repo. huggingface_weights_repo e s = Inr repo)"
  unfolding validate_final_architecture_model_path_weight_path_def
  by (auto split: if_splits sum.splits)

text \<open>What a run of the whole resolution that returns has gone through.\<close>

lemma resolve_pipeline_stages:
  assumes run: "resolve_pipeline e supported fmt raw self = Inr (self', lg)"
  shows "\<exists>s1 repo. resolve e raw self = Inr s1
           \<and> model_path self' = model_path s1 \<and> weights_repo_id self' = weights_repo_id s1
           \<and> weight_path self' \<noteq> [] \<and> quantization_encoding self' \<noteq> None
           \<and> huggingface_weights_repo e self' = Inr repo"
proof -
  from run obtain s1 where r1: "resolve e raw self = Inr s1"
    and r2: "validate_and_resolve_with_set_quantization_encoding e supported fmt s1 = Inr (self', lg)"
    by (auto simp add: resolve_pipeline_def split: sum.splits)
  from r2 obtain s2 s3 lg1 lg2 where
    fin: "finalize_encoding_config e s1 = Inr s2"
    and wp: "resolve_weight_path e fmt s2 = Inr s3"
    and kv: "resolve_kv_cache_strategy e supported s3 = Inr (self', lg1)"
    and vf: "validate_final_architecture_model_path_weight_path e self' = Inr lg2"
    by (auto simp add: validate_and_resolve_with_set_quantization_encoding_def split: sum.splits)
  from finalize_encoding_config_frame[OF fin]
  obtain qc where s2: "s2 = s1\<lparr>quant_config := qc\<rparr>" ..
  from resolve_weight_path_result[OF wp] obtain w where
    s3: "s3 = s2\<lparr>weight_path := w\<rparr>" and enc: "quantization_encoding s2 \<noteq> None"
    by blast
  from resolve_kv_cache_strategy_frame[OF kv]
  obtain k where s4: "self' = s3\<lparr>kv_cache_config := k\<rparr>" ..
  from validate_final_returns[OF vf] obtain repo where
    nonempty: "weight_path self' \<noteq> []" and repo: "huggingface_weights_repo e self' = Inr repo"
    by blast
  have "model_path self' = model_path s1" "weights_repo_id self' = weights_repo_id s1"
    "quantization_encoding self' \<noteq> None"
    using s2 s3 s4 enc by simp_all
  with r1 nonempty repo show ?thesis by blast
qed

text \<open>
  If the constructor of the repository raises for the empty repository id, a run that
  returns ends with a model path.
\<close>

lemma resolve_pipeline_model_path_if_empty_id_rejected:
  assumes run: "resolve_pipeline e supported fmt raw self = Inr (self', lg)"
    and rejects: "\<forall>rev trust. \<exists>err. classify_repo e [] rev trust = Inl err"
  shows "model_path self' \<noteq> []"
proof
  assume empty: "model_path self' = []"
  from resolve_pipeline_stages[OF run] obtain s1 repo where
    r1: "resolve e raw self = Inr s1"
    and same: "model_path self' = model_path s1" "weights_repo_id self' = weights_repo_id s1"
    and repo: "huggingface_weights_repo e self' = Inr repo"
    by blast
  from resolve_empty_model_path[OF r1] empty same
  have "weights_repo_id self' = None \<or> weights_repo_id self' = Some []" by simp
  from huggingface_weights_repo_empty_id[OF repo empty this] rejects
  show False by (metis sum.distinct(1))
qed

text \<open>A run that returns ends with a weight path and an encoding.\<close>

lemma resolve_pipeline_weight_path_and_encoding:
  assumes "resolve_pipeline e supported fmt raw self = Inr (self', lg)"
  shows "weight_path self' \<noteq> [] \<and> quantization_encoding self' \<noteq> None"
  using resolve_pipeline_stages[OF assms] by blast

text \<open>
  Claim C4. When \<open>resolve\<close> followed by
  \<open>validate_and_resolve_with_set_quantization_encoding\<close> returns, the model path should
  not be empty, nor the weight path, and the encoding should be set. The code ensures the
  last two. For the model path, \<open>resolve\<close> has the guards of lines 248 and 261, and the
  final validation assumes at line 599 that a model path is available; but a weight file
  given as a \<open>Path\<close> that exists passes both guards with no model path at all, and
  \<open>resolve\<close> returns with the model path empty. No later stage writes the model path:
  where the repository of the empty id is built without an error, the whole resolution
  returns and the model path is still empty.
\<close>

theorem resolve_keeps_empty_model_path:
  "is_file example_env (PosixPath ''/data/llama-q4_k_m.gguf'')
   \<and> resolve example_env (WList [EPath (PosixPath ''/data/llama-q4_k_m.gguf'')])
        (example_config\<lparr>quantization_encoding := Some (other_encoding ''q4_k'')\<rparr>)
      = Inr (example_config\<lparr>quantization_encoding := Some (other_encoding ''q4_k''),
               weight_path := [PosixPath ''/data/llama-q4_k_m.gguf'']\<rparr>)
   \<and> model_path
        (example_config\<lparr>quantization_encoding := Some (other_encoding ''q4_k''),
           weight_path := [PosixPath ''/data/llama-q4_k_m.gguf'']\<rparr>) = []
   \<and> resolve_pipeline (example_env\<lparr>classify_repo := \<lambda>r rv t. Inr RepoType_online\<rparr>)
        [(other_encoding ''q4_k'', [PAGED])] gguf
        (WList [EPath (PosixPath ''/data/llama-q4_k_m.gguf'')])
        (example_config\<lparr>quantization_encoding := Some (other_encoding ''q4_k'')\<rparr>)
      = Inr (example_config\<lparr>quantization_encoding := Some (other_encoding ''q4_k''),
               weight_path := [PosixPath ''/data/llama-q4_k_m.gguf''],
               kv_cache_config := (kv_cache_config example_config)\<lparr>cache_strategy := PAGED\<rparr>\<rparr>,
             [(DEBUG, ''default cache_strategy of '' @ quote ''paged'' @ '' enabled'')])
   \<and> model_path
        (example_config\<lparr>quantization_encoding := Some (other_encoding ''q4_k''),
           weight_path := [PosixPath ''/data/llama-q4_k_m.gguf''],
           kv_cache_config := (kv_cache_config example_config)\<lparr>cache_strategy := PAGED\<rparr>\<rparr>) = []"
proof -
  let ?env = "example_env\<lparr>classify_repo := \<lambda>r rv t. Inr RepoType_online\<rparr>"
  have r: "resolve en (WList [EPath (PosixPath ''/data/llama-q4_k_m.gguf'')])
      (example_config\<lparr>quantization_encoding := Some (other_encoding ''q4_k'')\<rparr>)
    = Inr (example_config\<lparr>quantization_encoding := Some (other_encoding ''q4_k''),
             weight_path := [PosixPath ''/data/llama-q4_k_m.gguf'']\<rparr>)"
    if "en = example_env \<or> en = ?env" for en
    using that
    by (auto simp add: example_defs resolve_def resolve_weight_entry_def lower_def)
  have v: "validate_and_resolve_with_set_quantization_encoding ?env
      [(other_encoding ''q4_k'', [PAGED])] gguf
      (example_config\<lparr>quantization_encoding := Some (other_encoding ''q4_k''),
             weight_path := [PosixPath ''/data/llama-q4_k_m.gguf'']\<rparr>)
    = Inr (example_config\<lparr>quantization_encoding := Some (other_encoding ''q4_k''),
            weight_path := [PosixPath ''/data/llama-q4_k_m.gguf''],
            kv_cache_config := (kv_cache_config example_config)\<lparr>cache_strategy := PAGED\<rparr>\<rparr>,
          [(DEBUG, ''default cache_strategy of '' @ quote ''paged'' @ '' enabled'')])"
    by (simp add: example_defs
          validate_and_resolve_with_set_quantization_encoding_def
          validate_quantization_encoding_device_compatibility_def assert_quantization_encoding_def
          finalize_encoding_config_def resolve_weight_path_def default_weight_path_def
          huggingface_weights_repo_def resolve_kv_cache_strategy_def
          validate_final_architecture_model_path_weight_path_def local_weight_path_def)
  have f: "is_file example_env (PosixPath ''/data/llama-q4_k_m.gguf'')"
    by (simp add: example_defs)
  show ?thesis
    using f r[of example_env] r[of ?env] v
    by (simp add: resolve_pipeline_def example_config_def)
qed

section \<open>The final validation of the weight path\<close>







end
